theory Spec2Isabelle
  imports Main
begin

section \<open>The counter reducer of App.jsx\<close>

text \<open>
  \<^verbatim>\<open>
  function reducer(state, action) {
    switch (action.type) {
      case 'increment': return { count: state.count + 1 };
      case 'decrement': return { count: state.count - 1 };
      default:          throw new Error();
    }
  }
  \<close>
  The same function is repeated in the hooks tutorial (section 4, useReducer), where it
  is started from \<open>{ count: 0 }\<close>.
\<close>

datatype js_error = Error

record state =
  count :: int

record action =
  type :: string

text \<open>
  A JavaScript Number is an IEEE-754 double. The counter starts at 0 and is only changed
  by adding and subtracting 1, so the model holds integer-valued Numbers; fractions, NaN,
  the infinities and counts that are not Numbers are outside it. An integer of magnitude
  below \<open>2 ^ 53\<close> is a double; from there on the doubles are \<open>ulp\<close> apart, and the
  result of an addition is the exact sum rounded to the nearest double, ties to the even
  significand. (Adding or subtracting 1 never leaves the finite range.)
\<close>

function ulp :: "int \<Rightarrow> int" where
  "ulp m = (if m < 2 ^ 53 then 1 else 2 * ulp (m div 2))"
  by pat_completeness auto
termination
  by (relation "measure nat") auto

declare ulp.simps [simp del]

definition js_round :: "int \<Rightarrow> int" where
  "js_round x =
     (let m = \<bar>x\<bar>; u = ulp m; q = m div u; r = m mod u
      in sgn x * (if 2 * r < u \<or> (2 * r = u \<and> even q) then q * u else (q + 1) * u))"

definition js_add :: "int \<Rightarrow> int \<Rightarrow> int" where
  "js_add a b = js_round (a + b)"

definition js_sub :: "int \<Rightarrow> int \<Rightarrow> int" where
  "js_sub a b = js_round (a - b)"

definition reducer :: "state \<Rightarrow> action \<Rightarrow> js_error + state" where
  "reducer state action =
     (if type action = ''increment'' then Inr \<lparr>count = js_add (count state) 1\<rparr>
      else if type action = ''decrement'' then Inr \<lparr>count = js_sub (count state) 1\<rparr>
      else Inl Error)"

text \<open>
  Dispatching a sequence of actions: each action is reduced on the state the previous
  one returned; an exception ends the sequence.
\<close>

fun dispatches :: "state \<Rightarrow> action list \<Rightarrow> js_error + state" where
  "dispatches s [] = Inr s"
| "dispatches s (a # as) =
     (case reducer s a of Inl e \<Rightarrow> Inl e | Inr s' \<Rightarrow> dispatches s' as)"


section \<open>Properties of the reducer\<close>

lemma ulp_small: "m < 2 ^ 53 \<Longrightarrow> ulp m = 1"
  using ulp.simps [of m] by simp

lemma js_round_small: "\<bar>x\<bar> < 2 ^ 53 \<Longrightarrow> js_round x = x"
  by (simp add: js_round_def ulp_small Let_def mult_sgn_abs)

lemma js_round_pos_53: "js_round 9007199254740992 = 9007199254740992"
  by code_simp

lemma js_round_neg_53: "js_round (- 9007199254740992) = - 9007199254740992"
  by code_simp

lemma js_round_safe:
  assumes "\<bar>x\<bar> \<le> 2 ^ 53"
  shows "js_round x = x"
proof -
  consider "\<bar>x\<bar> < 2 ^ 53" | "x = 9007199254740992" | "x = - 9007199254740992"
    using assms by fastforce
  then show ?thesis
    by cases (simp_all only: js_round_small js_round_pos_53 js_round_neg_53)
qed

text \<open>
  C9. For every state, the reducer returns \<open>{count: s.count + 1}\<close> on an action of type
  'increment', \<open>{count: s.count - 1}\<close> on one of type 'decrement', and throws an Error
  on every other action type (the sum type leaves no further outcome).
\<close>

theorem reducer_outcomes:
  "(type a = ''increment'' \<longrightarrow> reducer s a = Inr \<lparr>count = js_add (count s) 1\<rparr>) \<and>
   (type a = ''decrement'' \<longrightarrow> reducer s a = Inr \<lparr>count = js_sub (count s) 1\<rparr>) \<and>
   (type a \<noteq> ''increment'' \<and> type a \<noteq> ''decrement'' \<longrightarrow> reducer s a = Inl Error)"
  by (simp add: reducer_def)

theorem reducer_outcomes_witness:
  "reducer \<lparr>count = 41\<rparr> \<lparr>type = ''increment''\<rparr> = Inr \<lparr>count = 42\<rparr> \<and>
   reducer \<lparr>count = 41\<rparr> \<lparr>type = ''decrement''\<rparr> = Inr \<lparr>count = 40\<rparr> \<and>
   reducer \<lparr>count = 41\<rparr> \<lparr>type = ''reset''\<rparr> = Inl Error"
  using reducer_outcomes [of "\<lparr>type = ''increment''\<rparr>" "\<lparr>count = 41\<rparr>"]
    reducer_outcomes [of "\<lparr>type = ''decrement''\<rparr>" "\<lparr>count = 41\<rparr>"]
    reducer_outcomes [of "\<lparr>type = ''reset''\<rparr>" "\<lparr>count = 41\<rparr>"]
  by (simp add: js_add_def js_sub_def js_round_small)

text \<open>
  C10, as stated: increment followed by decrement gives back the count of every state.
  It fails at the count \<open>2 ^ 53 = 9007199254740992\<close>: the sum \<open>2 ^ 53 + 1\<close> is not a
  double and rounds back to \<open>2 ^ 53\<close>, and the decrement then yields \<open>2 ^ 53 - 1\<close>.
\<close>

theorem increment_decrement_counterexample:
  "dispatches \<lparr>count = 9007199254740992\<rparr> [\<lparr>type = ''increment''\<rparr>, \<lparr>type = ''decrement''\<rparr>]
     = Inr \<lparr>count = 9007199254740991\<rparr>"
proof -
  have "js_round 9007199254740993 = 9007199254740992"
    by code_simp
  moreover have "js_round 9007199254740991 = 9007199254740991"
    by (simp add: js_round_small)
  ultimately show ?thesis
    by (simp add: reducer_def js_add_def js_sub_def)
qed

text \<open>
  C10, amended: for every state whose count is a safe integer (magnitude below
  \<open>2 ^ 53\<close>), increment followed by decrement, and decrement followed by increment,
  return a state with the count of the state they started from.
\<close>

theorem increment_decrement_inverse:
  assumes "\<bar>count s\<bar> < 2 ^ 53"
  shows "dispatches s [\<lparr>type = ''increment''\<rparr>, \<lparr>type = ''decrement''\<rparr>] = Inr \<lparr>count = count s\<rparr> \<and>
         dispatches s [\<lparr>type = ''decrement''\<rparr>, \<lparr>type = ''increment''\<rparr>] = Inr \<lparr>count = count s\<rparr>"
proof -
  have up: "js_round (count s + 1) = count s + 1"
    using assms by (intro js_round_safe) simp
  have down: "js_round (count s - 1) = count s - 1"
    using assms by (intro js_round_safe) simp
  have here: "js_round (count s) = count s"
    using assms by (rule js_round_small)
  show ?thesis
    by (simp add: reducer_def js_add_def js_sub_def up down here)
qed

theorem increment_decrement_inverse_witness:
  "\<bar>count \<lparr>count = 7\<rparr>\<bar> < 2 ^ 53 \<and>
   dispatches \<lparr>count = 7\<rparr> [\<lparr>type = ''increment''\<rparr>, \<lparr>type = ''decrement''\<rparr>] = Inr \<lparr>count = 7\<rparr> \<and>
   dispatches \<lparr>count = 7\<rparr> [\<lparr>type = ''decrement''\<rparr>, \<lparr>type = ''increment''\<rparr>] = Inr \<lparr>count = 7\<rparr>"
  using increment_decrement_inverse [of "\<lparr>count = 7\<rparr>"] by simp

end
